theory Spec2Isabelle
  imports Complex_Main "HOL-Library.AList" "HOL-Library.Sublist"
begin

section \<open>The scraper worker: values, errors and effects\<close>

text \<open>
  The worker (\<^verbatim>\<open>scraper/src/worker.py\<close>) receives one message body at a time and runs one of
  two entry points, \<^verbatim>\<open>fetch_quote\<close> or \<^verbatim>\<open>fetch_popularity\<close>. Both call the upstream API,
  inspect a dynamically typed response, write to the document store and sleep; on some
  errors they call themselves again.

  The embedding keeps that shape. Python values are a datatype, every \<^verbatim>\<open>raise\<close> is the
  \<open>Inl\<close> branch of a sum, and every effect on the outside world (API call, sleep, store
  write, phase setter, printed line) is an event of a trace, listed in the order the
  code performs it.
\<close>

subsection \<open>Python values\<close>

datatype pyval =
    PNone
  | PBool bool
  | PInt int
  | PFloat real
  | PStr string
  | PDatetime int
  | PList "pyval list"
  | PDict "(string \<times> pyval) list"

text \<open>One row failure of a pymongo bulk write, as listed under \<^verbatim>\<open>details["writeErrors"]\<close>.\<close>

record write_error =
  index :: nat
  code :: int
  errmsg :: string

text \<open>
  The exception classes the worker can meet. \<open>OtherError\<close> stands for any class that no
  \<^verbatim>\<open>except\<close> clause of the worker names, by its class name.
\<close>

datatype exn =
    KeyError
  | TypeError
  | AttributeError
  | UnboundLocalError
  | JSONDecodeError
  | ReadTimeout
  | InvalidTickerSymbol
  | BulkWriteError "write_error list"
  | OtherError string

text \<open>\<^verbatim>\<open>d[k]\<close> with a string key: only a dict can answer; a missing key raises KeyError.\<close>

fun subscript :: "pyval \<Rightarrow> string \<Rightarrow> exn + pyval" where
  "subscript (PDict kvs) k = (case map_of kvs k of None \<Rightarrow> Inl KeyError | Some v \<Rightarrow> Inr v)"
| "subscript _ k = Inl TypeError"

text \<open>\<^verbatim>\<open>d.get(k)\<close>: None for a missing key; a value that is no dict has no such method.\<close>

fun py_get :: "pyval \<Rightarrow> string \<Rightarrow> exn + pyval" where
  "py_get (PDict kvs) k = (case map_of kvs k of None \<Rightarrow> Inr PNone | Some v \<Rightarrow> Inr v)"
| "py_get _ k = Inl AttributeError"

text \<open>Truth value of a Python object, as \<^verbatim>\<open>not x\<close> reads it.\<close>

fun truthy :: "pyval \<Rightarrow> bool" where
  "truthy PNone = False"
| "truthy (PBool b) = b"
| "truthy (PInt i) = (i \<noteq> 0)"
| "truthy (PFloat r) = (r \<noteq> 0)"
| "truthy (PStr s) = (s \<noteq> [])"
| "truthy (PDatetime t) = True"
| "truthy (PList xs) = (xs \<noteq> [])"
| "truthy (PDict kvs) = (kvs \<noteq> [])"

text \<open>
  Iterating a value (\<^verbatim>\<open>filter\<close>, \<^verbatim>\<open>reduce\<close>): a list gives its items, a dict its keys, a
  string its characters; anything else is not iterable.
\<close>

fun py_iter :: "pyval \<Rightarrow> exn + pyval list" where
  "py_iter (PList xs) = Inr xs"
| "py_iter (PDict kvs) = Inr (map (\<lambda>kv. PStr (fst kv)) kvs)"
| "py_iter (PStr s) = Inr (map (\<lambda>c. PStr [c]) s)"
| "py_iter _ = Inl TypeError"

text \<open>\<^verbatim>\<open>needle in haystack\<close> on strings.\<close>

fun str_contains :: "string \<Rightarrow> string \<Rightarrow> bool" where
  "str_contains needle [] = (needle = [])"
| "str_contains needle (c # cs) = (prefix needle (c # cs) \<or> str_contains needle cs)"

text \<open>\<^verbatim>\<open>{**a, **b}\<close>: the keys of \<open>a\<close> keep their place, \<open>b\<close> overrides and appends.\<close>

definition dict_merge :: "(string \<times> pyval) list \<Rightarrow> (string \<times> pyval) list \<Rightarrow> (string \<times> pyval) list" where
  "dict_merge a b = fold (\<lambda>kv acc. AList.update (fst kv) (snd kv) acc) b a"

subsection \<open>Sequencing code that may raise\<close>

definition bnd :: "exn + 'a \<Rightarrow> ('a \<Rightarrow> exn + 'b) \<Rightarrow> exn + 'b" where
  "bnd m f = (case m of Inl e \<Rightarrow> Inl e | Inr a \<Rightarrow> f a)"

text \<open>\<^verbatim>\<open>list(map(f, xs))\<close>: left to right, the first exception ends it.\<close>

fun map_exn :: "('a \<Rightarrow> exn + 'b) \<Rightarrow> 'a list \<Rightarrow> exn + 'b list" where
  "map_exn f [] = Inr []"
| "map_exn f (x # xs) = bnd (f x) (\<lambda>y. bnd (map_exn f xs) (\<lambda>ys. Inr (y # ys)))"

subsection \<open>Effects\<close>

record update_one =
  filter_doc :: "(string \<times> pyval) list"
  update_doc :: "(string \<times> pyval) list"

datatype event =
    QuoteData string
  | GetUrl string
  | Sleep real
  | SetQuotesFinished
  | SetPopularitiesFinished
  | IndexBulkWrite "update_one list"
  | InsertMany "pyval list"
  | Print string "pyval list"
  | PPrint pyval
  | PPrintWriteError write_error

text \<open>
  A piece of code that performs effects and then returns or raises: the events it
  performed, in order, and its result. What ran before a \<^verbatim>\<open>raise\<close> stays in the trace.
\<close>

type_synonym 'a eff = "event list \<times> (exn + 'a)"

definition and_then :: "'a eff \<Rightarrow> ('a \<Rightarrow> 'b eff) \<Rightarrow> 'b eff" where
  "and_then m f =
     (case snd m of
        Inl e \<Rightarrow> (fst m, Inl e)
      | Inr a \<Rightarrow> (fst m @ fst (f a), snd (f a)))"

definition emit :: "event list \<Rightarrow> unit eff" where
  "emit evs = (evs, Inr ())"

definition pure_step :: "exn + 'a \<Rightarrow> 'a eff" where
  "pure_step r = ([], r)"

subsection \<open>Collaborators\<close>

text \<open>
  The helpers of \<^verbatim>\<open>utils\<close> and \<^verbatim>\<open>common\<close>, the two store handles and the clock are not part
  of the worker's source; the worker is modelled over any behaviour of theirs. A store
  call answers with its result for the documents it is given.
\<close>

record env =
  parse_instrument_url :: "pyval \<Rightarrow> exn + string"
  parse_updated_at :: "pyval \<Rightarrow> exn + pyval"
  pluck :: "string list \<Rightarrow> pyval \<Rightarrow> exn + (string \<times> pyval) list"
  DESIRED_QUOTE_KEYS :: "string list"
  parse_throttle_res :: "pyval \<Rightarrow> exn + real"
  index_bulk_write :: "update_one list \<Rightarrow> exn + unit"
  insert_many :: "pyval list \<Rightarrow> exn + unit"
  utcnow :: pyval

section \<open>The worker\<close>

subsection \<open>\<^verbatim>\<open>store_popularities\<close>\<close>

text \<open>
  One document per key of the popularity map, with the value \<^verbatim>\<open>popularity_map[key]\<close>; the
  documents go to \<^verbatim>\<open>collection.insert_many\<close>, whose failure is not caught here.
\<close>

definition popularity_document :: "pyval \<Rightarrow> (string \<times> pyval) list \<Rightarrow> string \<Rightarrow> exn + pyval" where
  "popularity_document timestamp popularity_map key =
     bnd (subscript (PDict popularity_map) key) (\<lambda>popularity.
       Inr (PDict [(''timestamp'', timestamp),
                   (''instrument_id'', PStr key),
                   (''popularity'', popularity)]))"

definition store_popularities :: "env \<Rightarrow> (string \<times> pyval) list \<Rightarrow> unit eff" where
  "store_popularities env popularity_map =
     (let timestamp = utcnow env in
      and_then (emit [PPrint (PDict popularity_map)]) (\<lambda>_.
      and_then (pure_step (map_exn (popularity_document timestamp popularity_map)
                             (map fst popularity_map))) (\<lambda>mapped_documents.
      and_then (emit [InsertMany mapped_documents]) (\<lambda>_.
      pure_step (insert_many env mapped_documents)))))"

subsection \<open>\<^verbatim>\<open>store_quotes\<close>\<close>

definition map_quote :: "env \<Rightarrow> pyval \<Rightarrow> exn + pyval" where
  "map_quote env quote =
     bnd (subscript quote ''instrument'') (\<lambda>url.
     bnd (parse_instrument_url env url) (\<lambda>instrument_id.
     bnd (pluck env (DESIRED_QUOTE_KEYS env) quote) (\<lambda>fields.
       let plucked = dict_merge [(''instrument_id'', PStr instrument_id)] fields in
       bnd (subscript (PDict plucked) ''updated_at'') (\<lambda>updated_at.
       bnd (parse_updated_at env updated_at) (\<lambda>parsed.
         Inr (PDict (AList.update ''updated_at'' parsed plucked)))))))"

definition format_quote :: "pyval \<Rightarrow> exn + pyval" where
  "format_quote quote =
     bnd (subscript quote ''symbol'') (\<lambda>symbol.
     bnd (subscript quote ''bid_price'') (\<lambda>bid.
     bnd (subscript quote ''ask_price'') (\<lambda>ask.
       Inr (PDict [(''symbol'', symbol), (''bid'', bid), (''ask'', ask)]))))"

definition update_index_symbol :: "env \<Rightarrow> pyval \<Rightarrow> pyval \<Rightarrow> exn + update_one" where
  "update_index_symbol env timestamp datum =
     bnd (py_get datum ''has_traded'') (\<lambda>has_traded.
     bnd (py_get datum ''updated_at'') (\<lambda>updated_at.
     bnd (parse_updated_at env updated_at) (\<lambda>parsed.
     bnd (py_get datum ''trading_halted'') (\<lambda>trading_halted.
       let data = [(''timestamp'', timestamp),
                   (''has_traded'', has_traded),
                   (''updated_at'', parsed),
                   (''trading_halted'', trading_halted)] in
       bnd (subscript datum ''instrument'') (\<lambda>url.
       bnd (parse_instrument_url env url) (\<lambda>instrument_id.
         Inr \<lparr>filter_doc = [(''instrument_id'', PStr instrument_id)],
              update_doc = [(''$set'', PDict data)]\<rparr>))))))"

text \<open>
  The \<^verbatim>\<open>except BulkWriteError\<close> loop: a row failure is printed unless its message
  contains \<^verbatim>\<open>duplicate key\<close>.
\<close>

definition report_write_error :: "write_error \<Rightarrow> event list" where
  "report_write_error err =
     (if \<not> str_contains ''duplicate key'' (errmsg err)
      then [Print ''ERROR: Unhandled exception occured during batch write:'' [],
            PPrintWriteError err]
      else [])"

definition insert_quotes :: "env \<Rightarrow> pyval list \<Rightarrow> unit eff" where
  "insert_quotes env quotes =
     (case insert_many env quotes of
        Inr _ \<Rightarrow> ([InsertMany quotes], Inr ())
      | Inl (BulkWriteError write_errors) \<Rightarrow>
          ([InsertMany quotes] @ concat (map report_write_error write_errors), Inr ())
      | Inl e \<Rightarrow> ([InsertMany quotes], Inl e))"

definition store_quotes :: "env \<Rightarrow> pyval \<Rightarrow> unit eff" where
  "store_quotes env raw =
     and_then (pure_step (py_iter raw)) (\<lambda>items.
       let quotes = filter (\<lambda>quote. quote \<noteq> PNone) items in
       and_then (pure_step (map_exn format_quote quotes)) (\<lambda>formatted.
       and_then (emit [PPrint (PList formatted)]) (\<lambda>_.
         let timestamp = utcnow env in
         and_then (pure_step (map_exn (update_index_symbol env timestamp) quotes)) (\<lambda>ops.
         and_then (emit [IndexBulkWrite ops]) (\<lambda>_.
         and_then (pure_step (index_bulk_write env ops)) (\<lambda>_.
         and_then (pure_step (map_exn (map_quote env) quotes)) (\<lambda>mapped.
           insert_quotes env mapped)))))))"

subsection \<open>\<^verbatim>\<open>fetch_popularity\<close>\<close>

text \<open>What a handler does last: return to the caller, or call the entry point again.\<close>

datatype next_step = Return | CallAgain

definition reduce_popularity :: "env \<Rightarrow> (string \<times> pyval) list \<Rightarrow> pyval \<Rightarrow> exn + (string \<times> pyval) list" where
  "reduce_popularity env acc datum =
     bnd (subscript datum ''instrument'') (\<lambda>url.
     bnd (parse_instrument_url env url) (\<lambda>instrument_id.
     bnd (subscript datum ''num_open_positions'') (\<lambda>num_open_positions.
       Inr (dict_merge acc [(instrument_id, num_open_positions)]))))"

text \<open>\<^verbatim>\<open>functools.reduce\<close> with an initial value, for a step that may raise.\<close>

fun reduce_exn :: "('b \<Rightarrow> 'a \<Rightarrow> exn + 'b) \<Rightarrow> 'a list \<Rightarrow> 'b \<Rightarrow> exn + 'b" where
  "reduce_exn f [] acc = Inr acc"
| "reduce_exn f (x # xs) acc = bnd (f acc x) (reduce_exn f xs)"

definition popularity_url :: "string \<Rightarrow> string" where
  "popularity_url instrument_ids =
     ''https://api.robinhood.com/instruments/popularity/?ids='' @ instrument_ids"

text \<open>
  The body of the \<^verbatim>\<open>try\<close>, given what \<^verbatim>\<open>TRADER.get_url\<close> does at this attempt (\<open>Inl\<close>: it
  raises, \<open>Inr\<close>: the response).
\<close>

definition popularity_try :: "env \<Rightarrow> string \<Rightarrow> real \<Rightarrow> exn + pyval \<Rightarrow> unit eff" where
  "popularity_try env instrument_ids cooldown upstream =
     and_then (emit [GetUrl (popularity_url instrument_ids)]) (\<lambda>_.
     and_then (pure_step upstream) (\<lambda>res.
     and_then (pure_step (subscript res ''results'')) (\<lambda>results.
     and_then (pure_step (py_iter results)) (\<lambda>items.
     and_then (pure_step (reduce_exn (reduce_popularity env) items [])) (\<lambda>popularities.
     and_then (store_popularities env popularities) (\<lambda>_.
     emit [Sleep cooldown]))))))"

text \<open>
  The \<^verbatim>\<open>except KeyError\<close> clause. \<^verbatim>\<open>res\<close> is unbound when the call itself raised. What the
  clause raises is not caught by the other clauses of the same \<^verbatim>\<open>try\<close>.
\<close>

definition popularity_on_key_error :: "env \<Rightarrow> exn + pyval \<Rightarrow> next_step eff" where
  "popularity_on_key_error env upstream =
     (case upstream of
        Inl _ \<Rightarrow> ([], Inl UnboundLocalError)
      | Inr res \<Rightarrow>
          and_then (pure_step (py_get res ''results'')) (\<lambda>results.
            if \<not> truthy results then
              ([Print ''ERROR: Unexpected response received from popularity request: {}'' [res],
                Sleep 120], Inr Return)
            else
              and_then (emit [Print ''{}'' [res]]) (\<lambda>_.
              and_then (pure_step (subscript res ''detail'')) (\<lambda>detail.
              and_then (pure_step (parse_throttle_res env detail)) (\<lambda>cooldown_seconds.
                ([Print ''Popularity fetch request failed; waiting for {} second cooldown...''
                    [PFloat cooldown_seconds],
                  Sleep cooldown_seconds], Inr CallAgain))))))"

text \<open>\<^verbatim>\<open>call_self\<close> up to its recursive call: sleep 30 seconds.\<close>

definition call_self :: "event list" where
  "call_self = [Sleep 30]"

text \<open>One attempt: the \<^verbatim>\<open>try\<close> and its \<^verbatim>\<open>except\<close> clauses, up to the recursive call.\<close>

definition popularity_attempt :: "env \<Rightarrow> string \<Rightarrow> real \<Rightarrow> exn + pyval \<Rightarrow> next_step eff" where
  "popularity_attempt env instrument_ids cooldown upstream =
     (let body = popularity_try env instrument_ids cooldown upstream in
      case snd body of
        Inr _ \<Rightarrow> (fst body, Inr Return)
      | Inl e \<Rightarrow>
          if e = KeyError then
            and_then (emit (fst body)) (\<lambda>_. popularity_on_key_error env upstream)
          else if e = ReadTimeout then
            (fst body @
               [Print ''Read timeout while fetching popularity... Sleeping 30 seconds and re-trying.'' []]
               @ call_self, Inr CallAgain)
          else if e = TypeError then
            (fst body @ [Print ''Robinhood sent back garbage; ignoring.'' []] @ call_self,
             Inr CallAgain)
          else if e = JSONDecodeError then
            (fst body @ [Print ''Robinhood API sending back HTML; backing off.'' []] @ call_self,
             Inr CallAgain)
          else (fst body, Inl e))"

text \<open>
  The entry point. \<open>script\<close> lists what the upstream call does at each successive attempt;
  every recursive call of the source consumes one entry and passes the same
  \<open>instrument_ids\<close>, store and cooldown on. The result is \<open>None\<close> when the script ends
  before the entry point has returned or raised: the source has no bound on attempts.
  (The interpreter's limit on call depth is no part of the source and is not modelled.)
\<close>

fun fetch_popularity ::
  "env \<Rightarrow> string \<Rightarrow> real \<Rightarrow> (exn + pyval) list \<Rightarrow> event list \<times> (exn + unit) option" where
  "fetch_popularity env instrument_ids cooldown script =
     (if instrument_ids = ''__DONE'' then
        ([Print ''Received DONE message for popularity fetching; marking as complete in Redis...'' [],
          SetPopularitiesFinished], Some (Inr ()))
      else
        (case script of
           [] \<Rightarrow> ([], None)
         | upstream # rest \<Rightarrow>
             (case popularity_attempt env instrument_ids cooldown upstream of
                (tr, Inl e) \<Rightarrow> (tr, Some (Inl e))
              | (tr, Inr Return) \<Rightarrow> (tr, Some (Inr ()))
              | (tr, Inr CallAgain) \<Rightarrow>
                  (case fetch_popularity env instrument_ids cooldown rest of
                     (tr', out) \<Rightarrow> (tr @ tr', out)))))"

subsection \<open>\<^verbatim>\<open>fetch_quote\<close>\<close>

definition quote_try :: "env \<Rightarrow> string \<Rightarrow> real \<Rightarrow> exn + pyval \<Rightarrow> unit eff" where
  "quote_try env symbols cooldown upstream =
     and_then (emit [QuoteData symbols]) (\<lambda>_.
     and_then (pure_step upstream) (\<lambda>res.
     and_then (pure_step (subscript res ''results'')) (\<lambda>quotes.
     and_then (store_quotes env quotes) (\<lambda>_.
     emit [Sleep cooldown]))))"

definition quote_on_key_error :: "env \<Rightarrow> exn + pyval \<Rightarrow> next_step eff" where
  "quote_on_key_error env upstream =
     (case upstream of
        Inl _ \<Rightarrow> ([], Inl UnboundLocalError)
      | Inr res \<Rightarrow>
          and_then (pure_step (py_get res ''detail'')) (\<lambda>detail.
            if \<not> truthy detail then
              ([Print ''ERROR: Unexpected response received from quote request: {}'' [res],
                Sleep 120], Inr Return)
            else
              and_then (pure_step (subscript res ''detail'')) (\<lambda>detail.
              and_then (pure_step (parse_throttle_res env detail)) (\<lambda>cooldown_seconds.
                ([Print ''Quote fetch request failed; waiting for {} second cooldown...''
                    [PFloat cooldown_seconds],
                  Sleep cooldown_seconds], Inr CallAgain)))))"

definition quote_attempt :: "env \<Rightarrow> string \<Rightarrow> real \<Rightarrow> exn + pyval \<Rightarrow> next_step eff" where
  "quote_attempt env symbols cooldown upstream =
     (let body = quote_try env symbols cooldown upstream in
      case snd body of
        Inr _ \<Rightarrow> (fst body, Inr Return)
      | Inl e \<Rightarrow>
          if e = KeyError then
            and_then (emit (fst body)) (\<lambda>_. quote_on_key_error env upstream)
          else if e = InvalidTickerSymbol then
            (fst body @ [Print ''Error while fetching symbols: {}'' [PStr symbols]], Inr Return)
          else if e = ReadTimeout then
            (fst body @
               [Print ''Read timeout while fetching quotes... Sleeping 30 seconds and re-trying.'' [],
                Sleep 30], Inr CallAgain)
          else (fst body, Inl e))"

fun fetch_quote ::
  "env \<Rightarrow> string \<Rightarrow> real \<Rightarrow> (exn + pyval) list \<Rightarrow> event list \<times> (exn + unit) option" where
  "fetch_quote env symbols cooldown script =
     (if symbols = ''__DONE'' then
        ([Print ''Received DONE message for quote fetching; marking as complete in Redis...'' [],
          SetQuotesFinished], Some (Inr ()))
      else
        (case script of
           [] \<Rightarrow> ([], None)
         | upstream # rest \<Rightarrow>
             (case quote_attempt env symbols cooldown upstream of
                (tr, Inl e) \<Rightarrow> (tr, Some (Inl e))
              | (tr, Inr Return) \<Rightarrow> (tr, Some (Inr ()))
              | (tr, Inr CallAgain) \<Rightarrow>
                  (case fetch_quote env symbols cooldown rest of
                     (tr', out) \<Rightarrow> (tr @ tr', out)))))"

section \<open>A test double for the collaborators\<close>

text \<open>
  Modelled from the spec: the helpers \<^verbatim>\<open>parse_instrument_url\<close>, \<^verbatim>\<open>parse_updated_at\<close>, \<^verbatim>\<open>pluck\<close>,
  \<^verbatim>\<open>DESIRED_QUOTE_KEYS\<close> (module \<^verbatim>\<open>utils\<close>) and \<^verbatim>\<open>parse_throttle_res\<close> (module \<^verbatim>\<open>common\<close>) are
  not in the worker's source. The double below follows the spec's words (the instrument
  id is the last non-empty path segment of the URL; a null timestamp passes through; the
  projection copies symbol, bid price, ask price and updated-at; a cooldown phrase is a
  number followed by \<^verbatim>\<open>seconds\<close> or \<^verbatim>\<open>minutes\<close>). It only serves to run the worker on concrete
  inputs; the theorems hold for every behaviour of the collaborators.
\<close>

fun split_on :: "char \<Rightarrow> string \<Rightarrow> string list" where
  "split_on sep [] = [[]]"
| "split_on sep (c # cs) =
     (if c = sep then [] # split_on sep cs
      else (case split_on sep cs of [] \<Rightarrow> [[c]] | w # ws \<Rightarrow> (c # w) # ws))"

definition stub_parse_instrument_url :: "pyval \<Rightarrow> exn + string" where
  "stub_parse_instrument_url v =
     (case v of
        PStr url \<Rightarrow>
          (case rev (filter (\<lambda>seg. seg \<noteq> []) (split_on CHR ''/'' url)) of
             [] \<Rightarrow> Inl (OtherError ''IndexError'')
           | seg # _ \<Rightarrow> Inr seg)
      | _ \<Rightarrow> Inl AttributeError)"

definition stub_parse_updated_at :: "pyval \<Rightarrow> exn + pyval" where
  "stub_parse_updated_at v =
     (case v of PNone \<Rightarrow> Inr PNone | PStr s \<Rightarrow> Inr (PStr s) | _ \<Rightarrow> Inl TypeError)"

definition stub_pluck :: "string list \<Rightarrow> pyval \<Rightarrow> exn + (string \<times> pyval) list" where
  "stub_pluck keys d = map_exn (\<lambda>k. bnd (subscript d k) (\<lambda>v. Inr (k, v))) keys"

definition digit_value :: "char \<Rightarrow> nat option" where
  "digit_value c =
     map_of [(CHR ''0'', 0), (CHR ''1'', 1), (CHR ''2'', 2), (CHR ''3'', 3), (CHR ''4'', 4),
             (CHR ''5'', 5), (CHR ''6'', 6), (CHR ''7'', 7), (CHR ''8'', 8), (CHR ''9'', 9)] c"

fun number_value :: "nat \<Rightarrow> string \<Rightarrow> nat option" where
  "number_value acc [] = Some acc"
| "number_value acc (c # cs) =
     (case digit_value c of None \<Rightarrow> None | Some d \<Rightarrow> number_value (10 * acc + d) cs)"

fun cooldown_of_tokens :: "string list \<Rightarrow> exn + real" where
  "cooldown_of_tokens (n # unit # rest) =
     (case (if n = [] then None else number_value 0 n) of
        Some k \<Rightarrow>
          (if prefix ''second'' unit then Inr (real k)
           else if prefix ''minute'' unit then Inr (real k * 60)
           else cooldown_of_tokens (unit # rest))
      | None \<Rightarrow> cooldown_of_tokens (unit # rest))"
| "cooldown_of_tokens _ = Inl (OtherError ''MalformedCooldown'')"

definition stub_parse_throttle_res :: "pyval \<Rightarrow> exn + real" where
  "stub_parse_throttle_res v =
     (case v of PStr msg \<Rightarrow> cooldown_of_tokens (split_on CHR '' '' msg) | _ \<Rightarrow> Inl TypeError)"

definition stub_env :: env where
  "stub_env =
     \<lparr>parse_instrument_url = stub_parse_instrument_url,
      parse_updated_at = stub_parse_updated_at,
      pluck = stub_pluck,
      DESIRED_QUOTE_KEYS = [''symbol'', ''bid_price'', ''ask_price'', ''updated_at''],
      parse_throttle_res = stub_parse_throttle_res,
      index_bulk_write = (\<lambda>ops. Inr ()),
      insert_many = (\<lambda>docs. Inr ()),
      utcnow = PDatetime 1541376000\<rparr>"

text \<open>Two quotes and a rate-limit response, as the upstream API sends them.\<close>

definition quote_A :: pyval where
  "quote_A = PDict [(''symbol'', PStr ''AAPL''), (''bid_price'', PStr ''1.00''),
                    (''ask_price'', PStr ''1.10''), (''updated_at'', PStr ''2018-11-05T00:00:00Z''),
                    (''has_traded'', PBool True), (''trading_halted'', PBool False),
                    (''instrument'', PStr ''https://api.robinhood.com/instruments/9/'')]"

definition quote_B :: pyval where
  "quote_B = PDict [(''symbol'', PStr ''MSFT''), (''bid_price'', PStr ''2.00''),
                    (''ask_price'', PStr ''2.20''), (''updated_at'', PStr ''2018-11-05T00:00:01Z''),
                    (''has_traded'', PBool True), (''trading_halted'', PBool False),
                    (''instrument'', PStr ''https://api.robinhood.com/instruments/2/'')]"

definition throttled :: pyval where
  "throttled = PDict [(''detail'', PStr ''Request was throttled. Expected available in 5 seconds.'')]"

text \<open>What the double makes of the two quotes: their index operations and quote fact records.\<close>

definition index_op_A :: update_one where
  "index_op_A =
     \<lparr>filter_doc = [(''instrument_id'', PStr ''9'')],
      update_doc = [(''$set'', PDict [(''timestamp'', PDatetime 1541376000),
                                     (''has_traded'', PBool True),
                                     (''updated_at'', PStr ''2018-11-05T00:00:00Z''),
                                     (''trading_halted'', PBool False)])]\<rparr>"

definition record_A :: pyval where
  "record_A = PDict [(''instrument_id'', PStr ''9''), (''symbol'', PStr ''AAPL''),
                     (''bid_price'', PStr ''1.00''), (''ask_price'', PStr ''1.10''),
                     (''updated_at'', PStr ''2018-11-05T00:00:00Z'')]"

definition index_op_B :: update_one where
  "index_op_B =
     \<lparr>filter_doc = [(''instrument_id'', PStr ''2'')],
      update_doc = [(''$set'', PDict [(''timestamp'', PDatetime 1541376000),
                                     (''has_traded'', PBool True),
                                     (''updated_at'', PStr ''2018-11-05T00:00:01Z''),
                                     (''trading_halted'', PBool False)])]\<rparr>"

definition record_B :: pyval where
  "record_B = PDict [(''instrument_id'', PStr ''2''), (''symbol'', PStr ''MSFT''),
                     (''bid_price'', PStr ''2.00''), (''ask_price'', PStr ''2.20''),
                     (''updated_at'', PStr ''2018-11-05T00:00:01Z'')]"

text \<open>The double with an index collection whose bulk write fails, and one whose insert does.\<close>

definition failing_index_env :: env where
  "failing_index_env =
     stub_env\<lparr>index_bulk_write :=
       (\<lambda>ops. Inl (BulkWriteError [\<lparr>index = 0, code = 2, errmsg = ''index write failed''\<rparr>]))\<rparr>"

definition failing_insert_env :: env where
  "failing_insert_env =
     stub_env\<lparr>insert_many :=
       (\<lambda>docs. Inl (BulkWriteError
          [\<lparr>index = 0, code = 11000,
            errmsg = ''E11000 duplicate key error collection: robinhood.quotes''\<rparr>,
           \<lparr>index = 1, code = 121, errmsg = ''Document failed validation''\<rparr>]))\<rparr>"

text \<open>A popularity batch in which the instrument 9 occurs twice.\<close>

definition popularity_batch :: "pyval list" where
  "popularity_batch =
     [PDict [(''instrument'', PStr ''https://api.robinhood.com/instruments/9/''),
             (''num_open_positions'', PInt 7)],
      PDict [(''instrument'', PStr ''https://api.robinhood.com/instruments/2/''),
             (''num_open_positions'', PInt 3)],
      PDict [(''instrument'', PStr ''https://api.robinhood.com/instruments/9/''),
             (''num_open_positions'', PInt 8)]]"

section \<open>Reading a trace\<close>

fun is_setter :: "event \<Rightarrow> bool" where
  "is_setter SetQuotesFinished = True"
| "is_setter SetPopularitiesFinished = True"
| "is_setter _ = False"

fun is_api_call :: "event \<Rightarrow> bool" where
  "is_api_call (QuoteData s) = True"
| "is_api_call (GetUrl u) = True"
| "is_api_call _ = False"

fun is_store_write :: "event \<Rightarrow> bool" where
  "is_store_write (IndexBulkWrite ops) = True"
| "is_store_write (InsertMany docs) = True"
| "is_store_write _ = False"

text \<open>The operation lists handed to the index collection, and the document lists inserted.\<close>

fun index_ops :: "event list \<Rightarrow> update_one list list" where
  "index_ops [] = []"
| "index_ops (IndexBulkWrite ops # evs) = ops # index_ops evs"
| "index_ops (_ # evs) = index_ops evs"

fun inserted :: "event list \<Rightarrow> pyval list list" where
  "inserted [] = []"
| "inserted (InsertMany docs # evs) = docs # inserted evs"
| "inserted (_ # evs) = inserted evs"

section \<open>The popularity mapping, in the spec's words\<close>

text \<open>
  The spec describes the fold of \<^verbatim>\<open>fetch_popularity\<close> as a mapping from the instrument id of
  each entry to its open-position count, the last entry winning. \<open>popularity_entry\<close> reads
  one entry as such a pair; \<open>last_wins\<close> looks an id up from the end of the batch.
\<close>

definition popularity_entry :: "env \<Rightarrow> pyval \<Rightarrow> exn + (string \<times> pyval)" where
  "popularity_entry env datum =
     bnd (subscript datum ''instrument'') (\<lambda>url.
     bnd (parse_instrument_url env url) (\<lambda>instrument_id.
     bnd (subscript datum ''num_open_positions'') (\<lambda>num_open_positions.
       Inr (instrument_id, num_open_positions))))"

definition last_wins :: "(string \<times> pyval) list \<Rightarrow> string \<Rightarrow> pyval option" where
  "last_wins entries = map_of (rev entries)"

definition popularity_record :: "pyval \<Rightarrow> string \<times> pyval \<Rightarrow> pyval" where
  "popularity_record timestamp kv =
     PDict [(''timestamp'', timestamp), (''instrument_id'', PStr (fst kv)), (''popularity'', snd kv)]"

section \<open>Errors the entry points name\<close>

















section \<open>Properties\<close>

lemmas eff_defs = and_then_def emit_def pure_step_def bnd_def

subsection \<open>One attempt of each entry point\<close>

lemma quote_try_raises:
  "quote_try env symbols cd (Inl e) = ([QuoteData symbols], Inl e)"
  by (simp add: quote_try_def eff_defs)

lemma popularity_try_raises:
  "popularity_try env ids cd (Inl e) = ([GetUrl (popularity_url ids)], Inl e)"
  by (simp add: popularity_try_def eff_defs)

lemma quote_try_no_results:
  "map_of kvs ''results'' = None \<Longrightarrow>
   quote_try env symbols cd (Inr (PDict kvs)) = ([QuoteData symbols], Inl KeyError)"
  by (simp add: quote_try_def eff_defs)

lemma popularity_try_no_results:
  "map_of kvs ''results'' = None \<Longrightarrow>
   popularity_try env ids cd (Inr (PDict kvs)) = ([GetUrl (popularity_url ids)], Inl KeyError)"
  by (simp add: popularity_try_def eff_defs)

lemma quote_attempt_timeout:
  "quote_attempt env symbols cd (Inl ReadTimeout) =
     ([QuoteData symbols,
       Print ''Read timeout while fetching quotes... Sleeping 30 seconds and re-trying.'' [],
       Sleep 30], Inr CallAgain)"
  by (simp add: quote_attempt_def quote_try_raises)

lemma popularity_attempt_timeout:
  "popularity_attempt env ids cd (Inl ReadTimeout) =
     ([GetUrl (popularity_url ids),
       Print ''Read timeout while fetching popularity... Sleeping 30 seconds and re-trying.'' [],
       Sleep 30], Inr CallAgain)"
  by (simp add: popularity_attempt_def popularity_try_raises call_self_def)

lemma popularity_attempt_no_results:
  "map_of kvs ''results'' = None \<Longrightarrow>
   popularity_attempt env ids cd (Inr (PDict kvs)) =
     ([GetUrl (popularity_url ids),
       Print ''ERROR: Unexpected response received from popularity request: {}'' [PDict kvs],
       Sleep 120], Inr Return)"
  by (simp add: popularity_attempt_def popularity_try_no_results popularity_on_key_error_def
      eff_defs)

lemma quote_attempt_rate_limited:
  "map_of kvs ''results'' = None \<Longrightarrow> map_of kvs ''detail'' = Some detail \<Longrightarrow> truthy detail \<Longrightarrow>
   parse_throttle_res env detail = Inr seconds \<Longrightarrow>
   quote_attempt env symbols cd (Inr (PDict kvs)) =
     ([QuoteData symbols,
       Print ''Quote fetch request failed; waiting for {} second cooldown...'' [PFloat seconds],
       Sleep seconds], Inr CallAgain)"
  by (simp add: quote_attempt_def quote_try_no_results quote_on_key_error_def eff_defs)

text \<open>
  The quote entry point on a rate-limit response: it sleeps the parsed number of seconds
  and runs again on the same symbols, with the same store and cooldown.
\<close>

lemma fetch_quote_rate_limited:
  "symbols \<noteq> ''__DONE'' \<Longrightarrow>
   map_of kvs ''results'' = None \<Longrightarrow> map_of kvs ''detail'' = Some detail \<Longrightarrow> truthy detail \<Longrightarrow>
   parse_throttle_res env detail = Inr seconds \<Longrightarrow>
   fetch_quote env symbols cd (Inr (PDict kvs) # rest) =
     ([QuoteData symbols,
       Print ''Quote fetch request failed; waiting for {} second cooldown...'' [PFloat seconds],
       Sleep seconds] @ fst (fetch_quote env symbols cd rest),
      snd (fetch_quote env symbols cd rest))"
  by (simp add: quote_attempt_rate_limited split: prod.splits)

subsection \<open>Rate limiting\<close>

text \<open>
  C1 (the popularity entry point at a rate-limit response): the response lacks the results
  field and carries the detail phrase \<^verbatim>\<open>Expected available in 5 seconds.\<close> The \<^verbatim>\<open>except KeyError\<close>
  clause of \<^verbatim>\<open>fetch_popularity\<close> tests \<^verbatim>\<open>res.get("results")\<close>, which is None here, so it logs
  an unexpected response, sleeps 120 seconds and returns: the cooldown is not parsed and
  the batch is not fetched again, whatever the rest of the script holds.
\<close>

theorem popularity_rate_limit_abandoned:
  "fetch_popularity env ''1,2,3'' cooldown (Inr throttled # rest) =
     ([GetUrl ''https://api.robinhood.com/instruments/popularity/?ids=1,2,3'',
       Print ''ERROR: Unexpected response received from popularity request: {}'' [throttled],
       Sleep 120], Some (Inr ()))"
  using popularity_attempt_no_results
    [of "[(''detail'', PStr ''Request was throttled. Expected available in 5 seconds.'')]"
        env "''1,2,3''" cooldown]
  by (simp add: throttled_def popularity_url_def)

subsection \<open>The sentinel\<close>

text \<open>
  C5: on the body \<^verbatim>\<open>__DONE\<close> each entry point prints one line, calls its own phase setter
  and returns; the trace holds that setter exactly once, no API call and no store write,
  whatever the upstream would have answered.
\<close>

theorem sentinel_short_circuit:
  "fetch_quote env ''__DONE'' cooldown script =
     ([Print ''Received DONE message for quote fetching; marking as complete in Redis...'' [],
       SetQuotesFinished], Some (Inr ()))
   \<and> fetch_popularity env ''__DONE'' cooldown script =
     ([Print ''Received DONE message for popularity fetching; marking as complete in Redis...'' [],
       SetPopularitiesFinished], Some (Inr ()))
   \<and> filter is_setter (fst (fetch_quote env ''__DONE'' cooldown script)) = [SetQuotesFinished]
   \<and> filter is_setter (fst (fetch_popularity env ''__DONE'' cooldown script)) =
       [SetPopularitiesFinished]
   \<and> filter is_api_call (fst (fetch_quote env ''__DONE'' cooldown script)) = []
   \<and> filter is_api_call (fst (fetch_popularity env ''__DONE'' cooldown script)) = []
   \<and> filter is_store_write (fst (fetch_quote env ''__DONE'' cooldown script)) = []
   \<and> filter is_store_write (fst (fetch_popularity env ''__DONE'' cooldown script)) = []"
  by simp

subsection \<open>Read timeouts\<close>

text \<open>
  C9: when the fetch raises a read timeout, each entry point prints, sleeps 30 seconds and
  runs again with the same body, store and cooldown. Nothing counts the attempts: after
  any number \<open>n\<close> of timeouts in a row the entry point has fetched \<open>n\<close> times, slept 30
  seconds each time, and goes on with the next attempt as if it were the first.
\<close>

theorem read_timeout_retries:
  assumes "body \<noteq> ''__DONE''"
  shows "fetch_quote env body cooldown (replicate n (Inl ReadTimeout) @ rest) =
           (concat (replicate n
              [QuoteData body,
               Print ''Read timeout while fetching quotes... Sleeping 30 seconds and re-trying.'' [],
               Sleep 30]) @ fst (fetch_quote env body cooldown rest),
            snd (fetch_quote env body cooldown rest))
       \<and> fetch_popularity env body cooldown (replicate n (Inl ReadTimeout) @ rest) =
           (concat (replicate n
              [GetUrl (popularity_url body),
               Print ''Read timeout while fetching popularity... Sleeping 30 seconds and re-trying.'' [],
               Sleep 30]) @ fst (fetch_popularity env body cooldown rest),
            snd (fetch_popularity env body cooldown rest))"
proof (induction n)
  case 0
  show ?case by simp
next
  case (Suc n)
  then show ?case
    using assms
    by (simp add: quote_attempt_timeout popularity_attempt_timeout split: prod.splits
        del: fetch_quote.simps fetch_popularity.simps
        add: fetch_quote.simps [of _ _ _ "_ # _"] fetch_popularity.simps [of _ _ _ "_ # _"])
qed

theorem read_timeout_retries_witness:
  "''AAPL,MSFT'' \<noteq> ''__DONE''
   \<and> fetch_quote stub_env ''AAPL,MSFT'' 1 [Inl ReadTimeout, Inl ReadTimeout, Inl InvalidTickerSymbol] =
       ([QuoteData ''AAPL,MSFT'',
         Print ''Read timeout while fetching quotes... Sleeping 30 seconds and re-trying.'' [],
         Sleep 30,
         QuoteData ''AAPL,MSFT'',
         Print ''Read timeout while fetching quotes... Sleeping 30 seconds and re-trying.'' [],
         Sleep 30,
         QuoteData ''AAPL,MSFT'',
         Print ''Error while fetching symbols: {}'' [PStr ''AAPL,MSFT'']], Some (Inr ()))
   \<and> fetch_popularity stub_env ''AAPL,MSFT'' 1 [Inl ReadTimeout, Inl ReadTimeout] =
       ([GetUrl ''https://api.robinhood.com/instruments/popularity/?ids=AAPL,MSFT'',
         Print ''Read timeout while fetching popularity... Sleeping 30 seconds and re-trying.'' [],
         Sleep 30,
         GetUrl ''https://api.robinhood.com/instruments/popularity/?ids=AAPL,MSFT'',
         Print ''Read timeout while fetching popularity... Sleeping 30 seconds and re-trying.'' [],
         Sleep 30], None)"
proof -
  have ne: "''AAPL,MSFT'' \<noteq> ''__DONE''" by simp
  have two: "replicate 2 x = [x, x]" for x :: "'a" by (simp add: numeral_2_eq_2)
  have q: "fetch_quote stub_env ''AAPL,MSFT'' 1 [Inl InvalidTickerSymbol] =
      ([QuoteData ''AAPL,MSFT'', Print ''Error while fetching symbols: {}'' [PStr ''AAPL,MSFT'']], Some (Inr ()))"
    by (simp add: quote_attempt_def quote_try_raises)
  show ?thesis
    using read_timeout_retries [OF ne, of stub_env 1 2 "[Inl InvalidTickerSymbol]"]
          read_timeout_retries [OF ne, of stub_env 1 2 "[]"] q
    by (simp add: two popularity_url_def del: fetch_quote.simps fetch_popularity.simps add: fetch_popularity.simps [of _ _ _ "[]"])
qed

subsection \<open>Traces of the stores and of one attempt\<close>

lemma report_write_error_no_setter: "filter is_setter (concat (map report_write_error errs)) = []"
  by (induction errs) (simp_all add: report_write_error_def)

lemma insert_quotes_trace:
  "fst (insert_quotes env docs) =
     InsertMany docs #
       (case insert_many env docs of
          Inl (BulkWriteError errs) \<Rightarrow> concat (map report_write_error errs)
        | _ \<Rightarrow> [])"
  by (simp add: insert_quotes_def split: sum.splits exn.splits)

lemma insert_quotes_no_setter: "filter is_setter (fst (insert_quotes env docs)) = []"
  by (simp add: insert_quotes_trace report_write_error_no_setter split: sum.splits exn.splits)

lemma store_quotes_not_iterable:
  "py_iter raw = Inl e \<Longrightarrow> store_quotes env raw = ([], Inl e)"
  by (simp add: store_quotes_def eff_defs)

lemma store_quotes_unfold:
  "py_iter raw = Inr items \<Longrightarrow>
   store_quotes env raw =
     (case map_exn format_quote (filter (\<lambda>quote. quote \<noteq> PNone) items) of
        Inl e \<Rightarrow> ([], Inl e)
      | Inr formatted \<Rightarrow>
     (case map_exn (update_index_symbol env (utcnow env)) (filter (\<lambda>quote. quote \<noteq> PNone) items) of
        Inl e \<Rightarrow> ([PPrint (PList formatted)], Inl e)
      | Inr ops \<Rightarrow>
     (case index_bulk_write env ops of
        Inl e \<Rightarrow> ([PPrint (PList formatted), IndexBulkWrite ops], Inl e)
      | Inr _ \<Rightarrow>
     (case map_exn (map_quote env) (filter (\<lambda>quote. quote \<noteq> PNone) items) of
        Inl e \<Rightarrow> ([PPrint (PList formatted), IndexBulkWrite ops], Inl e)
      | Inr mapped \<Rightarrow>
          ([PPrint (PList formatted), IndexBulkWrite ops] @ fst (insert_quotes env mapped),
           snd (insert_quotes env mapped))))))"
  by (simp add: store_quotes_def eff_defs Let_def split: sum.splits)

lemma store_quotes_no_setter: "filter is_setter (fst (store_quotes env raw)) = []"
proof (cases "py_iter raw")
  case (Inl e)
  then show ?thesis by (simp add: store_quotes_not_iterable)
next
  case (Inr items)
  then show ?thesis
    by (simp add: store_quotes_unfold insert_quotes_no_setter split: sum.splits)
qed

lemma store_popularities_no_setter: "filter is_setter (fst (store_popularities env m)) = []"
  by (simp add: store_popularities_def eff_defs Let_def split: sum.splits)

lemma quote_try_trace:
  "\<exists>tr. fst (quote_try env symbols cd upstream) = QuoteData symbols # tr \<and> filter is_setter tr = []"
  by (simp add: quote_try_def eff_defs store_quotes_no_setter split: sum.splits)

lemma popularity_try_trace:
  "\<exists>tr. fst (popularity_try env ids cd upstream) = GetUrl (popularity_url ids) # tr \<and> filter is_setter tr = []"
  by (simp add: popularity_try_def eff_defs store_popularities_no_setter split: sum.splits)

lemma quote_on_key_error_no_setter: "filter is_setter (fst (quote_on_key_error env upstream)) = []"
  by (simp add: quote_on_key_error_def eff_defs split: sum.splits)

lemma popularity_on_key_error_no_setter: "filter is_setter (fst (popularity_on_key_error env upstream)) = []"
  by (simp add: popularity_on_key_error_def eff_defs split: sum.splits)

lemma quote_attempt_trace:
  "\<exists>tr. fst (quote_attempt env symbols cd upstream) = QuoteData symbols # tr \<and> filter is_setter tr = []"
proof -
  obtain tr where tr: "fst (quote_try env symbols cd upstream) = QuoteData symbols # tr"
      "filter is_setter tr = []"
    using quote_try_trace by blast
  show ?thesis
    by (simp add: quote_attempt_def Let_def eff_defs tr quote_on_key_error_no_setter
        split: sum.splits)
qed

lemma popularity_attempt_trace:
  "\<exists>tr. fst (popularity_attempt env ids cd upstream) = GetUrl (popularity_url ids) # tr \<and> filter is_setter tr = []"
proof -
  obtain tr where tr: "fst (popularity_try env ids cd upstream) = GetUrl (popularity_url ids) # tr"
      "filter is_setter tr = []"
    using popularity_try_trace by blast
  show ?thesis
    by (simp add: popularity_attempt_def Let_def eff_defs call_self_def tr
        popularity_on_key_error_no_setter split: sum.splits)
qed

lemma fetch_quote_cons:
  "symbols \<noteq> ''__DONE'' \<Longrightarrow>
   fetch_quote env symbols cd (upstream # rest) =
     (case snd (quote_attempt env symbols cd upstream) of
        Inl e \<Rightarrow> (fst (quote_attempt env symbols cd upstream), Some (Inl e))
      | Inr Return \<Rightarrow> (fst (quote_attempt env symbols cd upstream), Some (Inr ()))
      | Inr CallAgain \<Rightarrow>
          (fst (quote_attempt env symbols cd upstream) @ fst (fetch_quote env symbols cd rest),
           snd (fetch_quote env symbols cd rest)))"
  by (simp split: prod.splits sum.splits next_step.splits)

lemma fetch_popularity_cons:
  "ids \<noteq> ''__DONE'' \<Longrightarrow>
   fetch_popularity env ids cd (upstream # rest) =
     (case snd (popularity_attempt env ids cd upstream) of
        Inl e \<Rightarrow> (fst (popularity_attempt env ids cd upstream), Some (Inl e))
      | Inr Return \<Rightarrow> (fst (popularity_attempt env ids cd upstream), Some (Inr ()))
      | Inr CallAgain \<Rightarrow>
          (fst (popularity_attempt env ids cd upstream) @ fst (fetch_popularity env ids cd rest),
           snd (fetch_popularity env ids cd rest)))"
  by (simp split: prod.splits sum.splits next_step.splits)

lemma fetch_quote_nil: "symbols \<noteq> ''__DONE'' \<Longrightarrow> fetch_quote env symbols cd [] = ([], None)"
  by simp

lemma fetch_popularity_nil: "ids \<noteq> ''__DONE'' \<Longrightarrow> fetch_popularity env ids cd [] = ([], None)"
  by simp

lemma fetch_quote_no_setter:
  "symbols \<noteq> ''__DONE'' \<Longrightarrow> filter is_setter (fst (fetch_quote env symbols cd script)) = []"
proof (induction script)
  case Nil
  then show ?case by simp
next
  case (Cons upstream rest)
  obtain tr where tr: "fst (quote_attempt env symbols cd upstream) = QuoteData symbols # tr"
      "filter is_setter tr = []"
    using quote_attempt_trace by blast
  from Cons tr show ?case
    by (simp add: fetch_quote_cons split: sum.splits next_step.splits del: fetch_quote.simps)
qed

lemma fetch_popularity_no_setter:
  "ids \<noteq> ''__DONE'' \<Longrightarrow> filter is_setter (fst (fetch_popularity env ids cd script)) = []"
proof (induction script)
  case Nil
  then show ?case by simp
next
  case (Cons upstream rest)
  obtain tr where tr: "fst (popularity_attempt env ids cd upstream) = GetUrl (popularity_url ids) # tr"
      "filter is_setter tr = []"
    using popularity_attempt_trace by blast
  from Cons tr show ?case
    by (simp add: fetch_popularity_cons split: sum.splits next_step.splits
        del: fetch_popularity.simps)
qed

lemma fetch_quote_first_event:
  "symbols \<noteq> ''__DONE'' \<Longrightarrow> \<exists>tr. fst (fetch_quote env symbols cd (upstream # rest)) = QuoteData symbols # tr"
proof -
  assume ne: "symbols \<noteq> ''__DONE''"
  obtain tr where tr: "fst (quote_attempt env symbols cd upstream) = QuoteData symbols # tr"
    using quote_attempt_trace by blast
  show ?thesis
    by (simp add: fetch_quote_cons [OF ne] tr split: sum.splits next_step.splits
        del: fetch_quote.simps)
qed

lemma fetch_popularity_first_event:
  "ids \<noteq> ''__DONE'' \<Longrightarrow> \<exists>tr. fst (fetch_popularity env ids cd (upstream # rest)) = GetUrl (popularity_url ids) # tr"
proof -
  assume ne: "ids \<noteq> ''__DONE''"
  obtain tr where tr: "fst (popularity_attempt env ids cd upstream) = GetUrl (popularity_url ids) # tr"
    using popularity_attempt_trace by blast
  show ?thesis
    by (simp add: fetch_popularity_cons [OF ne] tr split: sum.splits next_step.splits
        del: fetch_popularity.simps)
qed

subsection \<open>Only the exact sentinel completes a phase\<close>

text \<open>
  C10: the test is string equality with \<^verbatim>\<open>__DONE\<close>. For any other body the first thing
  each entry point does is the upstream call, with that body as the batch, and no run on
  such a body ever calls a phase setter, however many attempts it makes.
\<close>

theorem only_exact_sentinel_completes:
  assumes "body \<noteq> ''__DONE''"
  shows "(\<exists>tr. fst (fetch_quote env body cooldown (upstream # rest)) = QuoteData body # tr)
       \<and> (\<exists>tr. fst (fetch_popularity env body cooldown (upstream # rest)) =
                  GetUrl (popularity_url body) # tr)
       \<and> filter is_setter (fst (fetch_quote env body cooldown script)) = []
       \<and> filter is_setter (fst (fetch_popularity env body cooldown script)) = []"
proof (intro conjI)
  show "\<exists>tr. fst (fetch_quote env body cooldown (upstream # rest)) = QuoteData body # tr"
    using assms by (rule fetch_quote_first_event)
  show "\<exists>tr. fst (fetch_popularity env body cooldown (upstream # rest)) =
                  GetUrl (popularity_url body) # tr"
    using assms by (rule fetch_popularity_first_event)
  show "filter is_setter (fst (fetch_quote env body cooldown script)) = []"
    using assms by (rule fetch_quote_no_setter)
  show "filter is_setter (fst (fetch_popularity env body cooldown script)) = []"
    using assms by (rule fetch_popularity_no_setter)
qed

theorem only_exact_sentinel_completes_witness:
  "''DONE'' \<noteq> ''__DONE'' \<and> ''__done'' \<noteq> ''__DONE'' \<and> '' __DONE '' \<noteq> ''__DONE''
   \<and> (\<exists>tr. fst (fetch_quote stub_env ''DONE'' 1 [Inl InvalidTickerSymbol]) = QuoteData ''DONE'' # tr)
   \<and> (\<exists>tr. fst (fetch_quote stub_env ''__done'' 1 [Inl InvalidTickerSymbol]) =
              QuoteData ''__done'' # tr)
   \<and> (\<exists>tr. fst (fetch_popularity stub_env '' __DONE '' 1 [Inr throttled]) =
              GetUrl ''https://api.robinhood.com/instruments/popularity/?ids= __DONE '' # tr)
   \<and> filter is_setter (fst (fetch_quote stub_env ''DONE'' 1 [Inl InvalidTickerSymbol])) = []
   \<and> filter is_setter (fst (fetch_popularity stub_env '' __DONE '' 1 [Inr throttled])) = []"
proof -
  have a: "''DONE'' \<noteq> ''__DONE''" and b: "''__done'' \<noteq> ''__DONE''"
    and c: "'' __DONE '' \<noteq> ''__DONE''"
    by simp_all
  show ?thesis
    using only_exact_sentinel_completes [OF a, of stub_env 1 "Inl InvalidTickerSymbol" "[]"
            "[Inl InvalidTickerSymbol]"]
          only_exact_sentinel_completes [OF b, of stub_env 1 "Inl InvalidTickerSymbol" "[]" "[]"]
          only_exact_sentinel_completes [OF c, of stub_env 1 "Inr throttled" "[]" "[Inr throttled]"]
    by (simp add: popularity_url_def del: fetch_quote.simps fetch_popularity.simps)
qed


subsection \<open>The index operations of \<^verbatim>\<open>store_quotes\<close>\<close>

lemma map_exn_length: "map_exn f xs = Inr ys \<Longrightarrow> length ys = length xs"
  by (induction xs arbitrary: ys) (auto simp: bnd_def split: sum.splits)

lemma map_exn_all2: "map_exn f xs = Inr ys \<Longrightarrow> list_all2 (\<lambda>x y. f x = Inr y) xs ys"
  by (induction xs arbitrary: ys) (auto simp: bnd_def split: sum.splits)

lemma index_ops_append: "index_ops (xs @ ys) = index_ops xs @ index_ops ys"
  by (induction xs rule: index_ops.induct) simp_all

lemma inserted_append: "inserted (xs @ ys) = inserted xs @ inserted ys"
  by (induction xs rule: inserted.induct) simp_all

lemma report_write_error_quiet:
  "index_ops (concat (map report_write_error errs)) = []"
  "inserted (concat (map report_write_error errs)) = []"
  by (induction errs) (simp_all add: report_write_error_def index_ops_append inserted_append)

lemma insert_quotes_obs:
  "index_ops (fst (insert_quotes env docs)) = []"
  "inserted (fst (insert_quotes env docs)) = [docs]"
  by (simp_all add: insert_quotes_trace report_write_error_quiet split: sum.splits exn.splits)

lemma store_quotes_index_ops:
  "index_ops (fst (store_quotes env (PList raw))) =
     (case map_exn format_quote (filter (\<lambda>quote. quote \<noteq> PNone) raw) of
        Inl e \<Rightarrow> []
      | Inr formatted \<Rightarrow>
          (case map_exn (update_index_symbol env (utcnow env)) (filter (\<lambda>quote. quote \<noteq> PNone) raw) of
             Inl e \<Rightarrow> []
           | Inr ops \<Rightarrow> [ops]))"
  by (simp add: store_quotes_unfold index_ops_append insert_quotes_obs split: sum.splits)

text \<open>
  C3, as the code has it: \<^verbatim>\<open>store_quotes\<close> rebinds \<^verbatim>\<open>quotes\<close> to the null-filtered list before it
  builds the index operations, so the operations handed to the index collection are
  built from exactly the non-null entries of the raw results list, one operation per
  non-null entry and in their order. A null entry yields no operation.
\<close>

theorem index_ops_built_from_non_null:
  assumes "index_ops (fst (store_quotes env (PList raw))) = [ops]"
  shows "map_exn (update_index_symbol env (utcnow env)) (filter (\<lambda>quote. quote \<noteq> PNone) raw) = Inr ops
       \<and> length ops = length (filter (\<lambda>quote. quote \<noteq> PNone) raw)
       \<and> list_all2 (\<lambda>quote op. update_index_symbol env (utcnow env) quote = Inr op)
            (filter (\<lambda>quote. quote \<noteq> PNone) raw) ops"
proof -
  from assms have *: "map_exn (update_index_symbol env (utcnow env)) (filter (\<lambda>quote. quote \<noteq> PNone) raw) = Inr ops"
    by (simp add: store_quotes_index_ops split: sum.splits)
  with map_exn_length [OF *] map_exn_all2 [OF *] show ?thesis by simp
qed

lemmas stub_defs =
  stub_env_def stub_parse_instrument_url_def stub_parse_updated_at_def stub_pluck_def

lemma stub_index_op_A:
  "update_index_symbol stub_env (utcnow stub_env) quote_A = Inr index_op_A"
  by (simp add: update_index_symbol_def quote_A_def index_op_A_def stub_defs bnd_def)

lemma stub_format_A:
  "format_quote quote_A = Inr (PDict [(''symbol'', PStr ''AAPL''), (''bid'', PStr ''1.00''), (''ask'', PStr ''1.10'')])"
  by (simp add: format_quote_def quote_A_def bnd_def)

lemma quote_A_not_None: "quote_A \<noteq> PNone"
  by (simp add: quote_A_def)

text \<open>
  C3, as stated, fails: of the two raw entries \<^verbatim>\<open>[None, quote_A]\<close> only one reaches the index
  collection.
\<close>

theorem index_ops_skip_null_counterexample:
  "index_ops (fst (store_quotes stub_env (PList [PNone, quote_A]))) =
     [[index_op_A]]
   \<and> length [PNone, quote_A] = 2"
  by (simp add: store_quotes_index_ops quote_A_not_None stub_format_A stub_index_op_A bnd_def)

theorem index_ops_built_from_non_null_witness:
  "index_ops (fst (store_quotes stub_env (PList [PNone, quote_A, PNone]))) =
     [[index_op_A]]
   \<and> length [index_op_A] = length (filter (\<lambda>quote. quote \<noteq> PNone) [PNone, quote_A, PNone])"
proof -
  have h: "index_ops (fst (store_quotes stub_env (PList [PNone, quote_A, PNone]))) =
     [[index_op_A]]"
    by (simp add: store_quotes_index_ops quote_A_not_None stub_format_A stub_index_op_A bnd_def)
  from index_ops_built_from_non_null [OF h] h show ?thesis by blast
qed

subsection \<open>The two writes of \<^verbatim>\<open>store_quotes\<close>\<close>

lemma store_quotes_inserted:
  "inserted (fst (store_quotes env (PList raw))) =
     (case map_exn format_quote (filter (\<lambda>quote. quote \<noteq> PNone) raw) of
        Inl e \<Rightarrow> []
      | Inr formatted \<Rightarrow>
     (case map_exn (update_index_symbol env (utcnow env)) (filter (\<lambda>quote. quote \<noteq> PNone) raw) of
        Inl e \<Rightarrow> []
      | Inr ops \<Rightarrow>
     (case index_bulk_write env ops of
        Inl e \<Rightarrow> []
      | Inr _ \<Rightarrow>
     (case map_exn (map_quote env) (filter (\<lambda>quote. quote \<noteq> PNone) raw) of
        Inl e \<Rightarrow> []
      | Inr mapped \<Rightarrow> [mapped]))))"
  by (simp add: store_quotes_unfold inserted_append insert_quotes_obs split: sum.splits)

lemma update_index_symbol_insert_many:
  "update_index_symbol (env\<lparr>insert_many := f\<rparr>) = update_index_symbol env"
  by (simp add: update_index_symbol_def fun_eq_iff)

lemma store_quotes_index_failure:
  assumes "index_ops (fst (store_quotes env (PList raw))) = [ops]"
    and "index_bulk_write env ops = Inl e"
  shows "inserted (fst (store_quotes env (PList raw))) = []"
    and "snd (store_quotes env (PList raw)) = Inl e"
  using assms
  by (auto simp add: store_quotes_index_ops store_quotes_inserted store_quotes_unfold
      split: sum.splits)

lemma store_quotes_insert_after_index:
  assumes "inserted (fst (store_quotes env (PList raw))) = [docs]"
  shows "\<exists>ops. index_ops (fst (store_quotes env (PList raw))) = [ops]
               \<and> index_bulk_write env ops = Inr ()"
  using assms
  by (simp add: store_quotes_index_ops store_quotes_inserted split: sum.splits)

text \<open>
  C4, as the code has it. The index bulk write comes first and is not inside any \<^verbatim>\<open>try\<close>:
  the operations it is given are the same whatever the quote insert would do, and the
  insert is only reached after the index write has succeeded, so a failing insert
  cannot block or fail the index write. The other direction does not hold: when the
  index write raises, \<^verbatim>\<open>store_quotes\<close> raises the same error and inserts nothing.
\<close>

theorem index_write_independent_of_insert:
  "index_ops (fst (store_quotes (env\<lparr>insert_many := f\<rparr>) (PList raw))) =
     index_ops (fst (store_quotes env (PList raw)))
   \<and> (inserted (fst (store_quotes env (PList raw))) = [docs] \<longrightarrow>
        (\<exists>ops. index_ops (fst (store_quotes env (PList raw))) = [ops]
               \<and> index_bulk_write env ops = Inr ()))
   \<and> (index_ops (fst (store_quotes env (PList raw))) = [ops] \<and> index_bulk_write env ops = Inl e \<longrightarrow>
        inserted (fst (store_quotes env (PList raw))) = []
        \<and> snd (store_quotes env (PList raw)) = Inl e)"
proof (intro conjI impI)
  show "index_ops (fst (store_quotes (env\<lparr>insert_many := f\<rparr>) (PList raw))) =
     index_ops (fst (store_quotes env (PList raw)))"
    by (simp add: store_quotes_index_ops update_index_symbol_insert_many cong: sum.case_cong)
next
  assume "inserted (fst (store_quotes env (PList raw))) = [docs]"
  then show "\<exists>ops. index_ops (fst (store_quotes env (PList raw))) = [ops]
               \<and> index_bulk_write env ops = Inr ()"
    by (rule store_quotes_insert_after_index)
next
  assume a: "index_ops (fst (store_quotes env (PList raw))) = [ops] \<and> index_bulk_write env ops = Inl e"
  then show "inserted (fst (store_quotes env (PList raw))) = []"
    using store_quotes_index_failure(1) by blast
  from a show "snd (store_quotes env (PList raw)) = Inl e"
    using store_quotes_index_failure(2) by blast
qed

lemma stub_map_quote_A:
  "map_quote stub_env quote_A = Inr record_A"
  by (simp add: map_quote_def quote_A_def record_A_def stub_defs bnd_def dict_merge_def)

lemma failing_index_env_simps:
  "update_index_symbol failing_index_env = update_index_symbol stub_env"
  "utcnow failing_index_env = utcnow stub_env"
  "index_bulk_write failing_index_env ops =
     Inl (BulkWriteError [\<lparr>index = 0, code = 2, errmsg = ''index write failed''\<rparr>])"
  by (simp_all add: failing_index_env_def update_index_symbol_def fun_eq_iff)

text \<open>
  C4, as stated, fails: when the index bulk write raises, the quote fact insert is never
  issued and \<^verbatim>\<open>store_quotes\<close> itself raises.
\<close>

theorem index_failure_blocks_insert_counterexample:
  "inserted (fst (store_quotes failing_index_env (PList [quote_A]))) = []
   \<and> snd (store_quotes failing_index_env (PList [quote_A])) =
       Inl (BulkWriteError [\<lparr>index = 0, code = 2, errmsg = ''index write failed''\<rparr>])"
  by (simp add: store_quotes_unfold store_quotes_inserted quote_A_not_None stub_format_A
      stub_index_op_A failing_index_env_simps bnd_def)

lemma stub_env_writes:
  "index_bulk_write stub_env ops = Inr ()" "insert_many stub_env docs = Inr ()"
  by (simp_all add: stub_env_def)

theorem index_write_independent_of_insert_witness:
  "inserted (fst (store_quotes stub_env (PList [quote_A]))) = [[record_A]]
   \<and> (\<exists>ops. index_ops (fst (store_quotes stub_env (PList [quote_A]))) = [ops]
            \<and> index_bulk_write stub_env ops = Inr ())
   \<and> index_ops (fst (store_quotes failing_index_env (PList [quote_A]))) = [[index_op_A]]
   \<and> index_bulk_write failing_index_env [index_op_A] =
       Inl (BulkWriteError [\<lparr>index = 0, code = 2, errmsg = ''index write failed''\<rparr>])
   \<and> inserted (fst (store_quotes failing_index_env (PList [quote_A]))) = []
   \<and> snd (store_quotes failing_index_env (PList [quote_A])) =
       Inl (BulkWriteError [\<lparr>index = 0, code = 2, errmsg = ''index write failed''\<rparr>])"
proof -
  have ins: "inserted (fst (store_quotes stub_env (PList [quote_A]))) = [[record_A]]"
    by (simp add: store_quotes_inserted quote_A_not_None stub_format_A stub_index_op_A
        stub_map_quote_A stub_env_writes bnd_def)
  have ops: "index_ops (fst (store_quotes failing_index_env (PList [quote_A]))) = [[index_op_A]]"
    by (simp add: store_quotes_index_ops quote_A_not_None stub_format_A stub_index_op_A
        failing_index_env_simps bnd_def)
  have fails: "index_bulk_write failing_index_env [index_op_A] =
       Inl (BulkWriteError [\<lparr>index = 0, code = 2, errmsg = ''index write failed''\<rparr>])"
    by (rule failing_index_env_simps)
  from index_write_independent_of_insert
         [where env = stub_env and raw = "[quote_A]" and docs = "[record_A]"]
       index_write_independent_of_insert
         [where env = failing_index_env and raw = "[quote_A]" and ops = "[index_op_A]"
            and e = "BulkWriteError [\<lparr>index = 0, code = 2, errmsg = ''index write failed''\<rparr>]"]
       ins ops fails
  show ?thesis by blast
qed

subsection \<open>The quote fact records\<close>

lemma dict_merge_keeps:
  "k \<notin> fst ` set b \<Longrightarrow> map_of (dict_merge a b) k = map_of a k"
  unfolding dict_merge_def
  by (induction b arbitrary: a) (auto simp add: update_conv')

lemma map_quote_instrument_id:
  assumes "\<forall>quote picked. pluck env (DESIRED_QUOTE_KEYS env) quote = Inr picked \<longrightarrow>
             ''instrument_id'' \<notin> fst ` set picked"
    and "map_quote env quote = Inr doc"
  shows "\<exists>url instrument_id.
           subscript quote ''instrument'' = Inr url
         \<and> parse_instrument_url env url = Inr instrument_id
         \<and> subscript doc ''instrument_id'' = Inr (PStr instrument_id)"
proof -
  from assms(2) obtain url instrument_id picked updated_at parsed where
    url: "subscript quote ''instrument'' = Inr url" and
    iid: "parse_instrument_url env url = Inr instrument_id" and
    picked: "pluck env (DESIRED_QUOTE_KEYS env) quote = Inr picked" and
    doc: "doc = PDict (AList.update ''updated_at'' parsed
            (dict_merge [(''instrument_id'', PStr instrument_id)] picked))"
    by (auto simp add: map_quote_def bnd_def Let_def split: sum.splits)
  from assms(1) picked have "''instrument_id'' \<notin> fst ` set picked" by blast
  then have "map_of (dict_merge [(''instrument_id'', PStr instrument_id)] picked) ''instrument_id''
      = Some (PStr instrument_id)"
    by (simp add: dict_merge_keeps)
  then have "subscript doc ''instrument_id'' = Inr (PStr instrument_id)"
    by (simp add: doc update_conv')
  with url iid show ?thesis by blast
qed

lemma map_quote_not_None: "map_quote env quote = Inr doc \<Longrightarrow> doc \<noteq> PNone"
  by (auto simp add: map_quote_def bnd_def Let_def split: sum.splits)

lemma map_exn_set: "map_exn f xs = Inr ys \<Longrightarrow> y \<in> set ys \<Longrightarrow> \<exists>x \<in> set xs. f x = Inr y"
  by (induction xs arbitrary: ys) (auto simp: bnd_def split: sum.splits)

text \<open>
  C6: the documents \<^verbatim>\<open>store_quotes\<close> hands to \<^verbatim>\<open>insert_many\<close> are the images of the non-null
  raw entries under \<^verbatim>\<open>map_quote\<close>, in order: there are at most as many as raw entries, none
  is null, and each carries under \<^verbatim>\<open>instrument_id\<close> what \<^verbatim>\<open>parse_instrument_url\<close> makes of that
  quote's \<^verbatim>\<open>instrument\<close> URL. The projection \<^verbatim>\<open>pluck(DESIRED_QUOTE_KEYS, quote)\<close> is merged over
  the id, so the last part needs that the projection has no \<^verbatim>\<open>instrument_id\<close> key of its
  own.
\<close>

theorem quote_records_normalized:
  assumes "\<forall>quote picked. pluck env (DESIRED_QUOTE_KEYS env) quote = Inr picked \<longrightarrow>
             ''instrument_id'' \<notin> fst ` set picked"
    and "inserted (fst (store_quotes env (PList raw))) = [docs]"
  shows "length docs \<le> length raw
       \<and> length docs = length (filter (\<lambda>quote. quote \<noteq> PNone) raw)
       \<and> PNone \<notin> set docs
       \<and> list_all2 (\<lambda>quote doc. \<exists>url instrument_id.
              subscript quote ''instrument'' = Inr url
            \<and> parse_instrument_url env url = Inr instrument_id
            \<and> subscript doc ''instrument_id'' = Inr (PStr instrument_id))
           (filter (\<lambda>quote. quote \<noteq> PNone) raw) docs"
proof -
  let ?quotes = "filter (\<lambda>quote. quote \<noteq> PNone) raw"
  from assms(2) have mapped: "map_exn (map_quote env) ?quotes = Inr docs"
    by (simp add: store_quotes_inserted split: sum.splits)
  have len: "length docs = length ?quotes"
    using mapped by (rule map_exn_length)
  have "length ?quotes \<le> length raw" by simp
  with len have le: "length docs \<le> length raw" by simp
  have nonnull: "PNone \<notin> set docs"
    using map_exn_set [OF mapped] map_quote_not_None by blast
  have "list_all2 (\<lambda>quote doc. map_quote env quote = Inr doc) ?quotes docs"
    using mapped by (rule map_exn_all2)
  then have ids: "list_all2 (\<lambda>quote doc. \<exists>url instrument_id.
              subscript quote ''instrument'' = Inr url
            \<and> parse_instrument_url env url = Inr instrument_id
            \<and> subscript doc ''instrument_id'' = Inr (PStr instrument_id)) ?quotes docs"
    by (rule list_all2_mono) (rule map_quote_instrument_id [OF assms(1)])
  from le len nonnull ids show ?thesis by blast
qed

lemma stub_pluck_keys:
  "stub_pluck keys quote = Inr picked \<Longrightarrow> map fst picked = keys"
  unfolding stub_pluck_def
  by (induction keys arbitrary: picked) (auto simp add: bnd_def split: sum.splits)

lemma stub_pluck_no_instrument_id:
  "\<forall>quote picked. pluck stub_env (DESIRED_QUOTE_KEYS stub_env) quote = Inr picked \<longrightarrow>
     ''instrument_id'' \<notin> fst ` set picked"
proof (intro allI impI)
  fix quote picked
  assume "pluck stub_env (DESIRED_QUOTE_KEYS stub_env) quote = Inr picked"
  then have "stub_pluck [''symbol'', ''bid_price'', ''ask_price'', ''updated_at''] quote = Inr picked"
    by (simp add: stub_env_def)
  then have "map fst picked = [''symbol'', ''bid_price'', ''ask_price'', ''updated_at'']"
    by (rule stub_pluck_keys)
  then have "set (map fst picked) = {''symbol'', ''bid_price'', ''ask_price'', ''updated_at''}"
    by simp
  then show "''instrument_id'' \<notin> fst ` set picked"
    by (simp del: set_map add: set_map [symmetric])
qed

theorem quote_records_normalized_witness:
  "inserted (fst (store_quotes stub_env (PList [PNone, quote_A]))) = [[record_A]]
   \<and> length [record_A] \<le> length [PNone, quote_A]
   \<and> PNone \<notin> set [record_A]
   \<and> subscript record_A ''instrument_id'' = Inr (PStr ''9'')
   \<and> stub_parse_instrument_url (PStr ''https://api.robinhood.com/instruments/9/'') = Inr ''9''"
proof -
  have ins: "inserted (fst (store_quotes stub_env (PList [PNone, quote_A]))) = [[record_A]]"
    by (simp add: store_quotes_inserted quote_A_not_None stub_format_A stub_index_op_A
        stub_map_quote_A stub_env_writes bnd_def)
  from quote_records_normalized [OF stub_pluck_no_instrument_id ins] ins
  show ?thesis
    by (simp add: quote_A_not_None record_A_def stub_parse_instrument_url_def)
qed

subsection \<open>Row failures of the quote insert\<close>

lemma str_contains_sublist: "str_contains needle haystack \<longleftrightarrow> sublist needle haystack"
proof (induction haystack)
  case Nil
  show ?case by simp
next
  case (Cons c cs)
  show ?case
  proof (cases needle)
    case Nil
    then show ?thesis by simp
  next
    case (Cons n ns)
    with Cons.IH show ?thesis by (simp add: sublist_Cons_right)
  qed
qed

lemma report_write_errors_filter:
  "concat (map report_write_error errs) =
     concat (map (\<lambda>err. [Print ''ERROR: Unhandled exception occured during batch write:'' [],
                          PPrintWriteError err])
       (filter (\<lambda>err. \<not> str_contains ''duplicate key'' (errmsg err)) errs))"
  by (induction errs) (simp_all add: report_write_error_def)

lemma insert_quotes_bulk_write_error:
  "insert_many env docs = Inl (BulkWriteError errs) \<Longrightarrow>
   insert_quotes env docs = (InsertMany docs # concat (map report_write_error errs), Inr ())"
  by (simp add: insert_quotes_def)

text \<open>
  C8: when the insert of the quote fact records raises a BulkWriteError, \<^verbatim>\<open>store_quotes\<close>
  walks its row failures in order, prints the two lines of the error report for each
  failure whose message does not contain \<^verbatim>\<open>duplicate key\<close>, prints nothing for the others,
  and returns normally; nothing follows the report.
\<close>

theorem duplicate_key_failures_swallowed:
  assumes "inserted (fst (store_quotes env (PList raw))) = [docs]"
    and "insert_many env docs = Inl (BulkWriteError write_errors)"
  shows "snd (store_quotes env (PList raw)) = Inr ()
       \<and> dropWhile (\<lambda>ev. ev \<noteq> InsertMany docs) (fst (store_quotes env (PList raw))) =
           InsertMany docs #
             concat (map (\<lambda>err. [Print ''ERROR: Unhandled exception occured during batch write:'' [],
                                  PPrintWriteError err])
               (filter (\<lambda>err. \<not> str_contains ''duplicate key'' (errmsg err)) write_errors))"
  using assms
  by (auto simp add: store_quotes_inserted store_quotes_unfold insert_quotes_bulk_write_error
      insert_quotes_obs report_write_errors_filter split: sum.splits)

lemma failing_insert_env_simps:
  "update_index_symbol failing_insert_env = update_index_symbol stub_env"
  "map_quote failing_insert_env = map_quote stub_env"
  "utcnow failing_insert_env = utcnow stub_env"
  "index_bulk_write failing_insert_env ops = Inr ()"
  "insert_many failing_insert_env docs =
     Inl (BulkWriteError
          [\<lparr>index = 0, code = 11000,
            errmsg = ''E11000 duplicate key error collection: robinhood.quotes''\<rparr>,
           \<lparr>index = 1, code = 121, errmsg = ''Document failed validation''\<rparr>])"
  by (simp_all add: failing_insert_env_def update_index_symbol_def map_quote_def fun_eq_iff
      stub_env_def)

lemma stub_format_B:
  "format_quote quote_B =
     Inr (PDict [(''symbol'', PStr ''MSFT''), (''bid'', PStr ''2.00''), (''ask'', PStr ''2.20'')])"
  by (simp add: format_quote_def quote_B_def bnd_def)

lemma stub_index_op_B:
  "update_index_symbol stub_env (utcnow stub_env) quote_B = Inr index_op_B"
  by (simp add: update_index_symbol_def quote_B_def index_op_B_def stub_defs bnd_def)

lemma stub_map_quote_B: "map_quote stub_env quote_B = Inr record_B"
  by (simp add: map_quote_def quote_B_def record_B_def stub_defs bnd_def dict_merge_def)

lemma quote_B_not_None: "quote_B \<noteq> PNone"
  by (simp add: quote_B_def)

lemma duplicate_message:
  "str_contains ''duplicate key'' ''E11000 duplicate key error collection: robinhood.quotes''"
  "\<not> str_contains ''duplicate key'' ''Document failed validation''"
  by simp_all

theorem duplicate_key_failures_swallowed_witness:
  "inserted (fst (store_quotes failing_insert_env (PList [quote_A, quote_B]))) =
     [[record_A, record_B]]
   \<and> insert_many failing_insert_env [record_A, record_B] =
       Inl (BulkWriteError
          [\<lparr>index = 0, code = 11000,
            errmsg = ''E11000 duplicate key error collection: robinhood.quotes''\<rparr>,
           \<lparr>index = 1, code = 121, errmsg = ''Document failed validation''\<rparr>])
   \<and> snd (store_quotes failing_insert_env (PList [quote_A, quote_B])) = Inr ()
   \<and> dropWhile (\<lambda>ev. ev \<noteq> InsertMany [record_A, record_B])
        (fst (store_quotes failing_insert_env (PList [quote_A, quote_B]))) =
       [InsertMany [record_A, record_B],
        Print ''ERROR: Unhandled exception occured during batch write:'' [],
        PPrintWriteError \<lparr>index = 1, code = 121, errmsg = ''Document failed validation''\<rparr>]"
proof -
  have ins: "inserted (fst (store_quotes failing_insert_env (PList [quote_A, quote_B]))) =
      [[record_A, record_B]]"
    by (simp add: store_quotes_inserted quote_A_not_None quote_B_not_None stub_format_A
        stub_format_B stub_index_op_A stub_index_op_B stub_map_quote_A stub_map_quote_B
        failing_insert_env_simps bnd_def)
  from duplicate_key_failures_swallowed [OF ins failing_insert_env_simps(5)] ins
  show ?thesis
    by (simp add: duplicate_message failing_insert_env_simps(5))
qed

subsection \<open>The popularity mapping and its rows\<close>

lemma reduce_popularity_entry:
  "reduce_popularity env acc datum =
     bnd (popularity_entry env datum) (\<lambda>kv. Inr (AList.update (fst kv) (snd kv) acc))"
  by (simp add: reduce_popularity_def popularity_entry_def bnd_def dict_merge_def
      split: sum.splits)

lemma reduce_exn_popularity:
  "reduce_exn (reduce_popularity env) results acc = Inr m \<Longrightarrow>
   \<exists>entries. map_exn (popularity_entry env) results = Inr entries
            \<and> m = fold (\<lambda>kv acc. AList.update (fst kv) (snd kv) acc) entries acc"
proof (induction results arbitrary: acc)
  case Nil
  then show ?case by simp
next
  case (Cons datum results)
  from Cons.prems
  have step: "bnd (reduce_popularity env acc datum) (reduce_exn (reduce_popularity env) results) = Inr m"
    by simp
  then obtain acc' where acc': "reduce_popularity env acc datum = Inr acc'"
    and rest': "reduce_exn (reduce_popularity env) results acc' = Inr m"
    by (cases "reduce_popularity env acc datum") (simp_all add: bnd_def)
  from acc' obtain kv where kv: "popularity_entry env datum = Inr kv"
    and upd: "acc' = AList.update (fst kv) (snd kv) acc"
    by (cases "popularity_entry env datum") (simp_all add: reduce_popularity_entry bnd_def)
  from rest' upd
  have rest: "reduce_exn (reduce_popularity env) results (AList.update (fst kv) (snd kv) acc) = Inr m"
    by simp
  from Cons.IH [OF rest] obtain entries where
    "map_exn (popularity_entry env) results = Inr entries"
    "m = fold (\<lambda>kv acc. AList.update (fst kv) (snd kv) acc) entries (AList.update (fst kv) (snd kv) acc)"
    by blast
  with kv show ?case by (simp add: bnd_def)
qed

lemma fold_update_map_of:
  "map_of (fold (\<lambda>kv acc. AList.update (fst kv) (snd kv) acc) entries acc) =
     map_of acc ++ map_of (rev entries)"
proof (induction entries arbitrary: acc)
  case Nil
  show ?case by simp
next
  case (Cons kv entries)
  show ?case
    by (simp add: Cons.IH update_conv' map_add_upd_left fun_eq_iff map_add_def
        split: option.splits)
qed

lemma fold_update_distinct:
  "distinct (map fst acc) \<Longrightarrow>
   distinct (map fst (fold (\<lambda>kv acc. AList.update (fst kv) (snd kv) acc) entries acc))"
  by (induction entries arbitrary: acc) (simp_all add: distinct_update)

lemma fold_update_keys:
  "fst ` set (fold (\<lambda>kv acc. AList.update (fst kv) (snd kv) acc) entries acc) =
     fst ` set acc \<union> fst ` set entries"
  by (induction entries arbitrary: acc) (auto simp add: dom_update)

lemma map_exn_total:
  "(\<And>x. x \<in> set xs \<Longrightarrow> f x = Inr (g x)) \<Longrightarrow> map_exn f xs = Inr (map g xs)"
  by (induction xs) (simp_all add: bnd_def)

lemma popularity_documents:
  assumes "distinct (map fst m)"
  shows "map_exn (popularity_document timestamp m) (map fst m) = Inr (map (popularity_record timestamp) m)"
proof -
  have "map_exn (popularity_document timestamp m) (map fst m) =
          Inr (map (\<lambda>k. popularity_record timestamp (k, the (map_of m k))) (map fst m))"
  proof (rule map_exn_total)
    fix k assume "k \<in> set (map fst m)"
    then obtain v where "map_of m k = Some v"
      by (metis map_of_eq_None_iff not_Some_eq set_map)
    then show "popularity_document timestamp m k = Inr (popularity_record timestamp (k, the (map_of m k)))"
      by (simp add: popularity_document_def popularity_record_def bnd_def)
  qed
  moreover have "map (\<lambda>k. popularity_record timestamp (k, the (map_of m k))) (map fst m) =
      map (popularity_record timestamp) m"
    using assms by (auto simp add: map_of_eq_Some_iff [THEN iffD2])
  ultimately show ?thesis by simp
qed

lemma store_popularities_rows:
  assumes "distinct (map fst m)"
  shows "store_popularities env m =
           ([PPrint (PDict m), InsertMany (map (popularity_record (utcnow env)) m)],
            insert_many env (map (popularity_record (utcnow env)) m))"
  by (simp add: store_popularities_def Let_def eff_defs popularity_documents [OF assms])

text \<open>
  C7: when the fold over the raw results list succeeds, its result is a mapping with one
  entry per instrument id of the batch; the value under an id is the open-position count
  of the last entry with that id. \<^verbatim>\<open>store_popularities\<close> then hands \<^verbatim>\<open>insert_many\<close> one row per
  key of the mapping, in the mapping's order, each with the timestamp, the key and its
  count, and nothing else.
\<close>

theorem popularity_mapping_and_rows:
  assumes "reduce_exn (reduce_popularity env) results [] = Inr m"
  shows "\<exists>entries.
           map_exn (popularity_entry env) results = Inr entries
         \<and> map_of m = last_wins entries
         \<and> distinct (map fst m)
         \<and> set (map fst m) = set (map fst entries)
         \<and> inserted (fst (store_popularities env m)) = [map (popularity_record (utcnow env)) m]
         \<and> length (map (popularity_record (utcnow env)) m) = card (set (map fst entries))"
proof -
  from reduce_exn_popularity [OF assms] obtain entries where
    entries: "map_exn (popularity_entry env) results = Inr entries" and
    m: "m = fold (\<lambda>kv acc. AList.update (fst kv) (snd kv) acc) entries []"
    by blast
  have lookup: "map_of m = last_wins entries"
    by (simp add: m fold_update_map_of last_wins_def)
  have dist: "distinct (map fst m)"
    unfolding m by (rule fold_update_distinct) simp
  have keys: "set (map fst m) = set (map fst entries)"
    using fold_update_keys [of entries "[]"] by (simp add: m)
  have rows: "inserted (fst (store_popularities env m)) = [map (popularity_record (utcnow env)) m]"
    by (simp add: store_popularities_rows [OF dist])
  have "length m = card (set (map fst m))"
    using dist distinct_card [of "map fst m"] by simp
  with keys have count: "length (map (popularity_record (utcnow env)) m) = card (set (map fst entries))"
    by simp
  from entries lookup dist keys rows count show ?thesis by blast
qed

lemma stub_popularity_entries:
  "map_exn (popularity_entry stub_env) popularity_batch =
     Inr [(''9'', PInt 7), (''2'', PInt 3), (''9'', PInt 8)]"
  by (simp add: popularity_batch_def popularity_entry_def stub_env_def
      stub_parse_instrument_url_def bnd_def)

lemma stub_popularity_fold:
  "reduce_exn (reduce_popularity stub_env) popularity_batch [] = Inr [(''9'', PInt 8), (''2'', PInt 3)]"
  by (simp add: popularity_batch_def reduce_popularity_def stub_env_def
      stub_parse_instrument_url_def bnd_def dict_merge_def)

theorem popularity_mapping_and_rows_witness:
  "reduce_exn (reduce_popularity stub_env) popularity_batch [] = Inr [(''9'', PInt 8), (''2'', PInt 3)]
   \<and> map_of [(''9'', PInt 8), (''2'', PInt 3)] =
       last_wins [(''9'', PInt 7), (''2'', PInt 3), (''9'', PInt 8)]
   \<and> inserted (fst (store_popularities stub_env [(''9'', PInt 8), (''2'', PInt 3)])) =
       [[PDict [(''timestamp'', PDatetime 1541376000), (''instrument_id'', PStr ''9''),
                (''popularity'', PInt 8)],
         PDict [(''timestamp'', PDatetime 1541376000), (''instrument_id'', PStr ''2''),
                (''popularity'', PInt 3)]]]
   \<and> fetch_popularity stub_env ''1,2,3'' 1 [Inr (PDict [(''results'', PList popularity_batch)])] =
       ([GetUrl ''https://api.robinhood.com/instruments/popularity/?ids=1,2,3'',
         PPrint (PDict [(''9'', PInt 8), (''2'', PInt 3)]),
         InsertMany
           [PDict [(''timestamp'', PDatetime 1541376000), (''instrument_id'', PStr ''9''),
                   (''popularity'', PInt 8)],
            PDict [(''timestamp'', PDatetime 1541376000), (''instrument_id'', PStr ''2''),
                   (''popularity'', PInt 3)]],
         Sleep 1], Some (Inr ()))"
proof -
  have rows: "store_popularities stub_env [(''9'', PInt 8), (''2'', PInt 3)] =
      ([PPrint (PDict [(''9'', PInt 8), (''2'', PInt 3)]),
        InsertMany
           [PDict [(''timestamp'', PDatetime 1541376000), (''instrument_id'', PStr ''9''),
                   (''popularity'', PInt 8)],
            PDict [(''timestamp'', PDatetime 1541376000), (''instrument_id'', PStr ''2''),
                   (''popularity'', PInt 3)]]], Inr ())"
    by (simp add: store_popularities_rows popularity_record_def stub_env_def)
  have run: "fetch_popularity stub_env ''1,2,3'' 1 [Inr (PDict [(''results'', PList popularity_batch)])] =
       ([GetUrl ''https://api.robinhood.com/instruments/popularity/?ids=1,2,3'',
         PPrint (PDict [(''9'', PInt 8), (''2'', PInt 3)]),
         InsertMany
           [PDict [(''timestamp'', PDatetime 1541376000), (''instrument_id'', PStr ''9''),
                   (''popularity'', PInt 8)],
            PDict [(''timestamp'', PDatetime 1541376000), (''instrument_id'', PStr ''2''),
                   (''popularity'', PInt 3)]],
         Sleep 1], Some (Inr ()))"
    by (simp add: popularity_attempt_def popularity_try_def popularity_url_def eff_defs
        stub_popularity_fold rows)
  from popularity_mapping_and_rows [OF stub_popularity_fold, unfolded stub_popularity_entries]
  have "map_of [(''9'', PInt 8), (''2'', PInt 3)] =
          last_wins [(''9'', PInt 7), (''2'', PInt 3), (''9'', PInt 8)]"
    by blast
  with stub_popularity_fold rows run show ?thesis
    by simp
qed

subsection \<open>Which errors leave the entry points\<close>





















end
